theory Spec2Isabelle
  imports Complex_Main "HOL-Library.Word"
begin

unbundle bit_operations_syntax

section \<open>The FM kick-drum voice of \<^verbatim>\<open>synth.h\<close>\<close>

text \<open>
  The class \<^verbatim>\<open>Synth\<close> is embedded as a record of its member variables and one function per
  method, each taking the object and returning the updated object.

  Conventions of the embedding:
  \<^item> \<^verbatim>\<open>float\<close> is modelled by \<^typ>\<open>real\<close>: arithmetic is exact, there is no rounding, no
    infinity and no NaN. Where the source divides by a time parameter that may be zero, the
    IEEE 754 result (an infinite step, which the clamp that follows absorbs) is written out
    as a branch of its own, since \<open>x / 0 = 0\<close> in HOL.
  \<^item> \<^verbatim>\<open>uint8_t\<close> is \<^typ>\<open>8 word\<close>, \<^verbatim>\<open>int32_t\<close> is \<^typ>\<open>32 word\<close> read with \<^const>\<open>sint\<close>.
  \<^item> \<^verbatim>\<open>std::rand()\<close> is an input: \<open>rnd k\<close> is the value returned by the \<open>k\<close>-th call, and the
    record counts the calls made so far.
  \<^item> the member \<^verbatim>\<open>flags_\<close> is never read or written by any method and is left out.
\<close>

subsection \<open>Constants and waveforms\<close>

text \<open>\<^verbatim>\<open>k_pi\<close> is the float nearest to \<open>\<pi>\<close>; in the real-number model it is \<open>\<pi>\<close> itself.\<close>

definition k_pi :: real where
  "k_pi = pi"

definition k_twopi :: real where
  "k_twopi = 2 * k_pi"

definition k_samplerate :: real where
  "k_samplerate = 48000"

definition k_wave_sine :: "8 word" where "k_wave_sine = 0"
definition k_wave_saw :: "8 word" where "k_wave_saw = 1"
definition k_wave_triangle :: "8 word" where "k_wave_triangle = 2"
definition k_wave_pulse :: "8 word" where "k_wave_pulse = 3"
definition k_wave_noise :: "8 word" where "k_wave_noise = 4"
definition k_num_waves :: "8 word" where "k_num_waves = 5"

definition waveformSine :: "real \<Rightarrow> real" where
  "waveformSine phase = sin (phase * k_twopi)"

definition waveformSaw :: "real \<Rightarrow> real" where
  "waveformSaw phase = 2 * phase - 1"

definition waveformTriangle :: "real \<Rightarrow> real" where
  "waveformTriangle phase = (let ramp = 2 * phase - 1 in 2 * (\<bar>ramp\<bar> - 0.5))"

definition waveformPulse :: "real \<Rightarrow> real \<Rightarrow> real" where
  "waveformPulse phase width = (if phase < width then 1 else - 1)"

text \<open>\<^verbatim>\<open>((std::rand() & 0xFFFF) / 32768.0f) * 2.0f - 1.0f\<close>, on the value \<open>r\<close> that \<^verbatim>\<open>rand\<close> returned.\<close>

definition waveformNoise :: "int \<Rightarrow> real" where
  "waveformNoise r = (real_of_int (r AND 0xFFFF) / 32768) * 2 - 1"

definition s_waveform_names :: "string list" where
  "s_waveform_names = [''Sine'', ''Saw'', ''Triangle'', ''Pulse'', ''Noise'']"

definition s_preset_names :: "string list" where
  "s_preset_names = [''Basic'', ''Punchy'', ''Sub Bass'', ''FM Kick'', ''Noise Attack'']"

subsection \<open>The object\<close>

datatype env_state = k_state_off | k_state_attack | k_state_decay | k_state_release

text \<open>
  The member variables, in the order of their declaration. The array
  \<^verbatim>\<open>float filter_state_[4]\<close> is the four fields \<open>filter_state0\<close> to \<open>filter_state3\<close>;
  \<open>rand_calls\<close> is the number of calls of \<^verbatim>\<open>std::rand\<close> made so far.
\<close>

record synth =
  phase1 :: real
  phase2 :: real
  click_phase :: real
  envelope :: real
  pitch_envelope :: real
  osc2_envelope :: real
  click_envelope :: real
  envelope_state :: env_state
  current_note :: "8 word"
  current_velocity :: real
  preset_index :: "8 word"
  pitch :: real
  decay :: real
  pitch_curve :: real
  body_level :: real
  drive :: real
  attack :: real
  release :: real
  click_level :: real
  click_freq :: real
  click_decay :: real
  click_tone :: real
  last_noise :: real
  filter_enabled :: bool
  filter_cutoff :: real
  filter_resonance :: real
  filter_mode_24db :: bool
  filter_state0 :: real
  filter_state1 :: real
  filter_state2 :: real
  filter_state3 :: real
  osc2_enabled :: "8 word"
  osc2_waveform :: "8 word"
  osc2_pitch :: real
  osc2_level :: real
  fm_amount :: real
  fm_ratio :: real
  osc2_decay :: real
  pulse_width :: real
  rand_calls :: nat

subsection \<open>Lifecycle\<close>

definition reset :: "synth \<Rightarrow> synth" where
  "reset s = s\<lparr>
     phase1 := 0,
     phase2 := 0,
     click_phase := 0,
     envelope := 0,
     envelope_state := k_state_off,
     pitch_envelope := 0,
     osc2_envelope := 0,
     current_note := 0,
     current_velocity := 0,
     filter_enabled := False,
     filter_mode_24db := False,
     filter_state0 := 0,
     filter_state1 := 0,
     filter_state2 := 0,
     filter_state3 := 0,
     last_noise := 0,
     click_envelope := 0\<rparr>"

definition initParams :: "synth \<Rightarrow> synth" where
  "initParams s = s\<lparr>
     pitch := 55,
     decay := 130,
     click_level := 0.5,
     pitch_curve := 0.5,
     body_level := 0.9,
     drive := 0.4,
     attack := 2,
     release := 300,
     osc2_enabled := 1,
     osc2_waveform := k_wave_sine,
     osc2_pitch := 2.0,
     osc2_level := 0.5,
     fm_amount := 0.0,
     fm_ratio := 2.0,
     osc2_decay := 100,
     pulse_width := 0.5,
     click_freq := 200,
     click_decay := 20,
     click_tone := 0.6,
     filter_enabled := False,
     filter_cutoff := 0.7,
     filter_resonance := 0.2,
     filter_mode_24db := False,
     preset_index := 0,
     last_noise := 0,
     click_envelope := 0\<rparr>"

subsection \<open>Note events\<close>

text \<open>
  \<^verbatim>\<open>NoteOn\<close>: the source text repeats the head of the function and its first six assignments
  before going on; the repeated assignments store the same values, so each field is
  written once here.
\<close>

definition NoteOn :: "8 word \<Rightarrow> 8 word \<Rightarrow> synth \<Rightarrow> synth" where
  "NoteOn note velocity s = s\<lparr>
     current_note := note,
     current_velocity := real (unat velocity) / 127,
     envelope_state := k_state_attack,
     envelope := 0,
     pitch_envelope := 1,
     osc2_envelope := 1,
     click_envelope := 1,
     last_noise := 0,
     filter_state0 := 0,
     filter_state1 := 0,
     filter_state2 := 0,
     filter_state3 := 0\<rparr>"

definition NoteOff :: "8 word \<Rightarrow> synth \<Rightarrow> synth" where
  "NoteOff note s =
     (if note = current_note s \<or> note = 0xFF then s\<lparr>envelope_state := k_state_release\<rparr>
      else s)"

definition GateOn :: "8 word \<Rightarrow> synth \<Rightarrow> synth" where
  "GateOn velocity s = NoteOn 0xFF velocity s"

definition GateOff :: "synth \<Rightarrow> synth" where
  "GateOff s = NoteOff 0xFF s"

definition AllNoteOff :: "synth \<Rightarrow> synth" where
  "AllNoteOff s = NoteOff 0xFF s"

subsection \<open>Initialisation\<close>

text \<open>
  Modelled from the spec: \<^verbatim>\<open>unit.h\<close>, which declares \<^verbatim>\<open>unit_runtime_desc_t\<close> and the result codes
  \<^verbatim>\<open>k_unit_err_none\<close>, \<^verbatim>\<open>k_unit_err_samplerate\<close> and \<^verbatim>\<open>k_unit_err_geometry\<close>, is not among the
  sources. The descriptor is a record of the two fields \<^verbatim>\<open>Init\<close> reads, both unsigned, and
  the three result codes are three symbolic codes, one per cause, as the specification
  says of the initialisation failures.
\<close>

record unit_runtime_desc =
  samplerate :: nat
  output_channels :: nat

datatype unit_err = k_unit_err_none | k_unit_err_samplerate | k_unit_err_geometry

definition Init :: "unit_runtime_desc \<Rightarrow> synth \<Rightarrow> unit_err \<times> synth" where
  "Init desc s =
     (if samplerate desc \<noteq> 48000 then (k_unit_err_samplerate, s)
      else if output_channels desc \<noteq> 2 then (k_unit_err_geometry, s)
      else (k_unit_err_none, initParams (reset s)))"

definition Reset :: "synth \<Rightarrow> synth" where
  "Reset s = reset s"

text \<open>
  The constructor runs \<^verbatim>\<open>reset(); initParams();\<close> on the uninitialised object. Between them
  the two write every field of the record, so the record they start from does not matter;
  no call of \<^verbatim>\<open>std::rand\<close> has been made.
\<close>

definition Synth_new :: synth where
  "Synth_new = initParams (reset \<lparr>
     phase1 = 0, phase2 = 0, click_phase = 0, envelope = 0, pitch_envelope = 0,
     osc2_envelope = 0, click_envelope = 0, envelope_state = k_state_off,
     current_note = 0, current_velocity = 0, preset_index = 0,
     pitch = 0, decay = 0, pitch_curve = 0, body_level = 0, drive = 0, attack = 0,
     release = 0, click_level = 0, click_freq = 0, click_decay = 0, click_tone = 0,
     last_noise = 0, filter_enabled = False, filter_cutoff = 0, filter_resonance = 0,
     filter_mode_24db = False, filter_state0 = 0, filter_state1 = 0, filter_state2 = 0,
     filter_state3 = 0, osc2_enabled = 0, osc2_waveform = 0, osc2_pitch = 0,
     osc2_level = 0, fm_amount = 0, fm_ratio = 0, osc2_decay = 0, pulse_width = 0,
     rand_calls = 0\<rparr>)"

subsection \<open>The per-sample pipeline\<close>

text \<open>
  The amplitude envelope, the \<^verbatim>\<open>switch\<close> at the head of \<^verbatim>\<open>process\<close>. The step is
  \<^verbatim>\<open>1.f / (attack_ / 1000.f * k_samplerate)\<close>; with a time of zero the float step is
  \<open>+\<infinity>\<close>, the comparison with the bound succeeds and the clamp is taken.
\<close>

definition amp_envelope_step :: "synth \<Rightarrow> synth" where
  "amp_envelope_step s =
     (case envelope_state s of
        k_state_attack \<Rightarrow>
          (if attack s = 0 \<or> 1 \<le> envelope s + 1 / (attack s / 1000 * k_samplerate)
           then s\<lparr>envelope := 1, envelope_state := k_state_decay\<rparr>
           else s\<lparr>envelope := envelope s + 1 / (attack s / 1000 * k_samplerate)\<rparr>)
      | k_state_decay \<Rightarrow>
          (if release s = 0 \<or> envelope s - 1 / (release s / 1000 * k_samplerate) \<le> 0
           then s\<lparr>envelope := 0, envelope_state := k_state_off\<rparr>
           else s\<lparr>envelope := envelope s - 1 / (release s / 1000 * k_samplerate)\<rparr>)
      | k_state_release \<Rightarrow>
          (if release s = 0 \<or> envelope s - 1 / (release s / 1000 * k_samplerate) \<le> 0
           then s\<lparr>envelope := 0, envelope_state := k_state_off\<rparr>
           else s\<lparr>envelope := envelope s - 1 / (release s / 1000 * k_samplerate)\<rparr>)
      | k_state_off \<Rightarrow> s)"

text \<open>
  \<^verbatim>\<open>e -= (1.f / (t / 1000.f * k_samplerate)); if (e < 0.f) e = 0.f;\<close>, the statement pair the
  source applies to each of the pitch, secondary-oscillator and click envelopes.
\<close>

definition decay_tracker :: "real \<Rightarrow> real \<Rightarrow> real" where
  "decay_tracker e t =
     (if t = 0 \<or> e - 1 / (t / 1000 * k_samplerate) < 0 then 0
      else e - 1 / (t / 1000 * k_samplerate))"

definition aux_envelopes :: "synth \<Rightarrow> synth" where
  "aux_envelopes s =
     (if envelope_state s \<noteq> k_state_off
      then s\<lparr>pitch_envelope := decay_tracker (pitch_envelope s) (decay s),
             osc2_envelope := decay_tracker (osc2_envelope s) (osc2_decay s),
             click_envelope := decay_tracker (click_envelope s) (click_decay s)\<rparr>
      else s)"

text \<open>\<^verbatim>\<open>if (p >= 1.f) p -= 1.f;\<close>\<close>

definition wrap_phase :: "real \<Rightarrow> real" where
  "wrap_phase p = (if 1 \<le> p then p - 1 else p)"

definition oscillator_phases :: "synth \<Rightarrow> synth" where
  "oscillator_phases s =
     (let current_pitch = pitch s * (1 - pitch_envelope s * pitch_curve s);
          freq1 = current_pitch;
          freq2 = current_pitch * osc2_pitch s;
          fm_mod = (if osc2_enabled s \<noteq> 0 \<and> 0 < fm_amount s
                    then waveformSine (phase2 s) * fm_amount s * osc2_envelope s * 100
                    else 0)
      in s\<lparr>phase1 := wrap_phase (phase1 s + (freq1 + fm_mod) / k_samplerate),
           phase2 := wrap_phase (phase2 s + freq2 * fm_ratio s / k_samplerate),
           click_phase := wrap_phase (click_phase s + click_freq s / k_samplerate)\<rparr>)"

definition osc2_output :: "(nat \<Rightarrow> int) \<Rightarrow> synth \<Rightarrow> real \<times> synth" where
  "osc2_output rnd s =
     (if osc2_enabled s \<noteq> 0 then
        (let (w, s') =
           (if osc2_waveform s = k_wave_sine then (waveformSine (phase2 s), s)
            else if osc2_waveform s = k_wave_saw then (waveformSaw (phase2 s), s)
            else if osc2_waveform s = k_wave_triangle then (waveformTriangle (phase2 s), s)
            else if osc2_waveform s = k_wave_pulse
              then (waveformPulse (phase2 s) (pulse_width s), s)
            else if osc2_waveform s = k_wave_noise
              then (waveformNoise (rnd (rand_calls s)), s\<lparr>rand_calls := rand_calls s + 1\<rparr>)
            else (waveformSine (phase2 s), s))
         in (w * (osc2_level s * osc2_envelope s), s'))
      else (0, s))"

definition click_output :: "(nat \<Rightarrow> int) \<Rightarrow> synth \<Rightarrow> real \<times> synth" where
  "click_output rnd s =
     (if envelope_state s \<noteq> k_state_off \<and> 0 < click_envelope s then
        (let noise = waveformNoise (rnd (rand_calls s));
             tonal = sin (click_phase s * k_twopi);
             click_source = noise * (1 - click_tone s) + tonal * click_tone s;
             hp_click = click_source - last_noise s * 0.7
         in (hp_click * click_level s * click_envelope s * 3,
             s\<lparr>rand_calls := rand_calls s + 1, last_noise := click_source\<rparr>))
      else (0, s))"

definition drive_stage :: "real \<Rightarrow> synth \<Rightarrow> real" where
  "drive_stage out s =
     (if 0 < drive s
      then tanh (out * (1 + drive s * 4)) * (1 / (1 + drive s * 1.5))
      else out)"

definition filter_stage :: "real \<Rightarrow> synth \<Rightarrow> real \<times> synth" where
  "filter_stage out s =
     (if filter_enabled s then
        (let cutoff = filter_cutoff s * 0.9 + 0.1;
             resonance = filter_resonance s * 0.98
         in if filter_mode_24db s then
              (let f = cutoff * 1.16;
                   fb = resonance * 4 * (1 - 0.15 * f * f);
                   input = (out - filter_state3 s * fb) * (0.35013 * f * f * f * f);
                   st0 = input + 0.3 * filter_state0 s;
                   st1 = st0 + 0.3 * filter_state1 s;
                   st2 = st1 + 0.3 * filter_state2 s;
                   st3 = st2 + 0.3 * filter_state3 s
               in (st3, s\<lparr>filter_state0 := st0, filter_state1 := st1,
                           filter_state2 := st2, filter_state3 := st3\<rparr>))
            else
              (let f = cutoff * 1.16;
                   fb = resonance * 2.5 * (1 - 0.2 * f * f);
                   input = (out - filter_state1 s * fb) * (0.35013 * f * f);
                   st0 = input + 0.3 * filter_state0 s;
                   st1 = st0 + 0.3 * filter_state1 s
               in (st1, s\<lparr>filter_state0 := st0, filter_state1 := st1\<rparr>)))
      else (out, s))"

text \<open>Makeup gain, envelope and velocity, hard limiter: the last lines of \<^verbatim>\<open>process\<close>.\<close>

definition output_stage :: "real \<Rightarrow> synth \<Rightarrow> real" where
  "output_stage out s =
     (let out1 = out * 1.3;
          out2 = out1 * (envelope s * current_velocity s);
          out3 = (if 1 < out2 then 1 else out2);
          out4 = (if out3 < - 1 then - 1 else out3)
      in out4)"

definition process :: "(nat \<Rightarrow> int) \<Rightarrow> synth \<Rightarrow> real \<times> synth" where
  "process rnd s =
     (let s1 = amp_envelope_step s;
          s2 = aux_envelopes s1;
          s3 = oscillator_phases s2;
          body = waveformSine (phase1 s3) * body_level s3;
          (osc2_out, s4) = osc2_output rnd s3;
          (click, s5) = click_output rnd s4;
          out = drive_stage (body + osc2_out + click) s5;
          (filtered, s6) = filter_stage out s5
      in (output_stage filtered s6, s6))"

text \<open>
  \<^verbatim>\<open>Render\<close> writes \<open>2 * frames\<close> floats, the sample of each frame twice. The result is the
  sequence of values written to \<^verbatim>\<open>out\<close>, in order, and the object after the last frame.
  \<open>frames\<close> is a natural number: the caller's buffer holds \<open>2 * frames\<close> floats, so
  \<^verbatim>\<open>frames << 1\<close> does not wrap.
\<close>

fun Render :: "(nat \<Rightarrow> int) \<Rightarrow> nat \<Rightarrow> synth \<Rightarrow> real list \<times> synth" where
  "Render rnd 0 s = ([], s)"
| "Render rnd (Suc n) s =
     (let (v, s1) = process rnd s;
          (rest, s2) = Render rnd n s1
      in (v # v # rest, s2))"

subsection \<open>Parameters\<close>

definition k_param_pitch :: "8 word" where "k_param_pitch = 0"
definition k_param_decay :: "8 word" where "k_param_decay = 1"
definition k_param_body_level :: "8 word" where "k_param_body_level = 2"
definition k_param_drive :: "8 word" where "k_param_drive = 3"
definition k_param_attack :: "8 word" where "k_param_attack = 4"
definition k_param_release :: "8 word" where "k_param_release = 5"
definition k_param_pitch_curve :: "8 word" where "k_param_pitch_curve = 6"
definition k_param_click_level :: "8 word" where "k_param_click_level = 7"
definition k_param_click_freq :: "8 word" where "k_param_click_freq = 8"
definition k_param_click_decay :: "8 word" where "k_param_click_decay = 9"
definition k_param_click_tone :: "8 word" where "k_param_click_tone = 10"
definition k_param_filter_enabled :: "8 word" where "k_param_filter_enabled = 11"
definition k_param_filter_cutoff :: "8 word" where "k_param_filter_cutoff = 12"
definition k_param_filter_resonance :: "8 word" where "k_param_filter_resonance = 13"
definition k_param_filter_mode :: "8 word" where "k_param_filter_mode = 14"
definition k_param_osc2_enabled :: "8 word" where "k_param_osc2_enabled = 15"
definition k_param_osc2_waveform :: "8 word" where "k_param_osc2_waveform = 16"
definition k_param_osc2_pitch :: "8 word" where "k_param_osc2_pitch = 17"
definition k_param_osc2_level :: "8 word" where "k_param_osc2_level = 18"
definition k_param_fm_amount :: "8 word" where "k_param_fm_amount = 19"
definition k_param_fm_ratio :: "8 word" where "k_param_fm_ratio = 20"
definition k_param_osc2_decay :: "8 word" where "k_param_osc2_decay = 21"

text \<open>The conversion of the \<^verbatim>\<open>int32_t\<close> argument to \<^verbatim>\<open>float\<close>.\<close>

definition to_float :: "32 word \<Rightarrow> real" where
  "to_float v = real_of_int (sint v)"

definition setParameter :: "8 word \<Rightarrow> 32 word \<Rightarrow> synth \<Rightarrow> synth" where
  "setParameter index v s =
     (if index = k_param_pitch then s\<lparr>pitch := to_float v\<rparr>
      else if index = k_param_decay then s\<lparr>decay := to_float v\<rparr>
      else if index = k_param_body_level then s\<lparr>body_level := to_float v / 100\<rparr>
      else if index = k_param_drive then s\<lparr>drive := to_float v / 100\<rparr>
      else if index = k_param_attack then s\<lparr>attack := to_float v\<rparr>
      else if index = k_param_release then s\<lparr>release := to_float v\<rparr>
      else if index = k_param_pitch_curve then s\<lparr>pitch_curve := to_float v / 100\<rparr>
      else if index = k_param_click_level then s\<lparr>click_level := to_float v / 100\<rparr>
      else if index = k_param_click_freq then s\<lparr>click_freq := to_float v\<rparr>
      else if index = k_param_click_decay then s\<lparr>click_decay := to_float v\<rparr>
      else if index = k_param_click_tone then s\<lparr>click_tone := to_float v / 100\<rparr>
      else if index = k_param_filter_enabled then s\<lparr>filter_enabled := (0 <s v)\<rparr>
      else if index = k_param_filter_cutoff then s\<lparr>filter_cutoff := to_float v / 100\<rparr>
      else if index = k_param_filter_resonance
        then s\<lparr>filter_resonance := to_float v / 100\<rparr>
      else if index = k_param_filter_mode then s\<lparr>filter_mode_24db := (0 <s v)\<rparr>
      else if index = k_param_osc2_enabled then s\<lparr>osc2_enabled := ucast v\<rparr>
      else if index = k_param_osc2_waveform then s\<lparr>osc2_waveform := ucast v\<rparr>
      else if index = k_param_osc2_pitch then s\<lparr>osc2_pitch := to_float v / 10\<rparr>
      else if index = k_param_osc2_level then s\<lparr>osc2_level := to_float v / 100\<rparr>
      else if index = k_param_fm_amount then s\<lparr>fm_amount := to_float v / 100\<rparr>
      else if index = k_param_fm_ratio then s\<lparr>fm_ratio := to_float v / 10\<rparr>
      else if index = k_param_osc2_decay then s\<lparr>osc2_decay := to_float v\<rparr>
      else s)"

definition getParameterStrValue :: "8 word \<Rightarrow> 32 word \<Rightarrow> string" where
  "getParameterStrValue index v =
     (if index = k_param_osc2_waveform then
        (let wave_idx = (ucast v :: 8 word)
         in if wave_idx < k_num_waves then s_waveform_names ! unat wave_idx else ''---'')
      else ''---'')"

subsection \<open>Presets\<close>

definition k_preset_basic :: "8 word" where "k_preset_basic = 0"
definition k_preset_punchy :: "8 word" where "k_preset_punchy = 1"
definition k_preset_sub :: "8 word" where "k_preset_sub = 2"
definition k_preset_fm_kick :: "8 word" where "k_preset_fm_kick = 3"
definition k_preset_noise_attack :: "8 word" where "k_preset_noise_attack = 4"

definition LoadPreset :: "8 word \<Rightarrow> synth \<Rightarrow> synth" where
  "LoadPreset index s0 =
     (let s = s0\<lparr>preset_index := index\<rparr> in
      if index = k_preset_basic then s\<lparr>
        pitch := 55, decay := 130, pitch_curve := 0.5, body_level := 0.9, drive := 0.4,
        attack := 3, release := 300,
        click_level := 0.5, click_freq := 200, click_decay := 20, click_tone := 0.6,
        filter_enabled := False, filter_cutoff := 0.7, filter_resonance := 0.2,
        filter_mode_24db := False,
        osc2_enabled := 0, osc2_waveform := k_wave_sine, osc2_pitch := 2.0,
        osc2_level := 0.0, fm_amount := 0.0, fm_ratio := 2.0, osc2_decay := 100\<rparr>
      else if index = k_preset_punchy then s\<lparr>
        pitch := 70, decay := 80, pitch_curve := 0.7, body_level := 0.9, drive := 0.6,
        attack := 1, release := 180,
        click_level := 0.8, click_freq := 250, click_decay := 15, click_tone := 0.5,
        filter_enabled := True, filter_cutoff := 0.9, filter_resonance := 0.3,
        filter_mode_24db := False,
        osc2_enabled := 0, osc2_waveform := k_wave_sine, osc2_pitch := 2.0,
        osc2_level := 0.0, fm_amount := 0.0, fm_ratio := 2.0, osc2_decay := 100\<rparr>
      else if index = k_preset_sub then s\<lparr>
        pitch := 45, decay := 250, pitch_curve := 0.3, body_level := 0.95, drive := 0.35,
        attack := 8, release := 500,
        click_level := 0.3, click_freq := 180, click_decay := 25, click_tone := 0.7,
        filter_enabled := True, filter_cutoff := 0.6, filter_resonance := 0.1,
        filter_mode_24db := True,
        osc2_enabled := 0, osc2_waveform := k_wave_sine, osc2_pitch := 2.0,
        osc2_level := 0.0, fm_amount := 0.0, fm_ratio := 2.0, osc2_decay := 100\<rparr>
      else if index = k_preset_fm_kick then s\<lparr>
        pitch := 55, decay := 180, pitch_curve := 0.6, body_level := 0.7, drive := 0.5,
        attack := 3, release := 250,
        click_level := 0.4, click_freq := 220, click_decay := 18, click_tone := 0.8,
        filter_enabled := True, filter_cutoff := 0.85, filter_resonance := 0.4,
        filter_mode_24db := False,
        osc2_enabled := 1, osc2_waveform := k_wave_sine, osc2_pitch := 3.0,
        osc2_level := 0.6, fm_amount := 0.7, fm_ratio := 2.7, osc2_decay := 80\<rparr>
      else if index = k_preset_noise_attack then s\<lparr>
        pitch := 50, decay := 200, pitch_curve := 0.5, body_level := 0.85, drive := 0.4,
        attack := 2, release := 280,
        click_level := 0.7, click_freq := 300, click_decay := 12, click_tone := 0.3,
        filter_enabled := True, filter_cutoff := 0.95, filter_resonance := 0.3,
        filter_mode_24db := False,
        osc2_enabled := 1, osc2_waveform := k_wave_noise, osc2_pitch := 1.0,
        osc2_level := 0.7, fm_amount := 0.0, fm_ratio := 1.0, osc2_decay := 20\<rparr>
      else s)"

definition getPresetIndex :: "synth \<Rightarrow> 8 word" where
  "getPresetIndex s = preset_index s"

definition getPresetName :: "8 word \<Rightarrow> string" where
  "getPresetName idx = (if idx < 5 then s_preset_names ! unat idx else ''---'')"

subsection \<open>The object after a number of rendered frames\<close>

definition rendered :: "(nat \<Rightarrow> int) \<Rightarrow> nat \<Rightarrow> synth \<Rightarrow> synth" where
  "rendered rnd k s = snd (Render rnd k s)"

subsection \<open>A frequency-modulation scenario within the parameter ranges of \<^verbatim>\<open>header.c\<close>\<close>

text \<open>
  A newly constructed object with PITCH 150 Hz and FM RATIO 5.0 (the upper ends of their
  ranges in \<^verbatim>\<open>header.c\<close>) renders 24 frames while idle. Then P.CURVE and FM AMOUNT are set
  to 100 percent and note 60 is switched on and off again before the next frame is
  rendered. The raw values 150, 50, 100 and 100 also lie in the ranges that \<^verbatim>\<open>header.c\<close>
  lists at the positions 0, 20, 6 and 19 of its table.
\<close>

definition fm_setup :: synth where
  "fm_setup = setParameter k_param_fm_ratio 50 (setParameter k_param_pitch 150 Synth_new)"

definition fm_warmup :: "(nat \<Rightarrow> int) \<Rightarrow> synth" where
  "fm_warmup rnd = snd (Render rnd 24 fm_setup)"

definition fm_trigger :: "(nat \<Rightarrow> int) \<Rightarrow> synth" where
  "fm_trigger rnd = NoteOff 60 (NoteOn 60 100 (setParameter k_param_fm_amount 100
     (setParameter k_param_pitch_curve 100 (fm_warmup rnd))))"

text \<open>
  The idle object with the modulator parked at three quarters of its cycle, where its sine
  is \<open>- 1\<close>, and a body frequency of zero.
\<close>

definition fm_idle :: "synth \<Rightarrow> bool" where
  "fm_idle s \<longleftrightarrow> envelope_state s = k_state_off \<and> \<not> filter_enabled s
     \<and> osc2_waveform s = k_wave_sine \<and> osc2_enabled s = 1 \<and> fm_amount s = 1
     \<and> osc2_envelope s = 1 \<and> pitch_envelope s = 1 \<and> pitch_curve s = 1 \<and> phase2 s = 3 / 4"

section \<open>Supporting lemmas\<close>

lemmas param_defs = k_param_pitch_def k_param_decay_def k_param_body_level_def k_param_drive_def
  k_param_attack_def k_param_release_def k_param_pitch_curve_def k_param_click_level_def
  k_param_click_freq_def k_param_click_decay_def k_param_click_tone_def
  k_param_filter_enabled_def k_param_filter_cutoff_def k_param_filter_resonance_def
  k_param_filter_mode_def k_param_osc2_enabled_def k_param_osc2_waveform_def
  k_param_osc2_pitch_def k_param_osc2_level_def k_param_fm_amount_def k_param_fm_ratio_def
  k_param_osc2_decay_def

lemmas preset_defs = k_preset_basic_def k_preset_punchy_def k_preset_sub_def
  k_preset_fm_kick_def k_preset_noise_attack_def

subsection \<open>The stages of one sample\<close>

lemma process_snd:
  "snd (process rnd s) =
     snd (filter_stage
       (drive_stage (waveformSine (phase1 (oscillator_phases (aux_envelopes (amp_envelope_step s))))
            * body_level (oscillator_phases (aux_envelopes (amp_envelope_step s)))
          + fst (osc2_output rnd (oscillator_phases (aux_envelopes (amp_envelope_step s))))
          + fst (click_output rnd (snd (osc2_output rnd (oscillator_phases (aux_envelopes (amp_envelope_step s)))))))
          (snd (click_output rnd (snd (osc2_output rnd (oscillator_phases (aux_envelopes (amp_envelope_step s))))))))
       (snd (click_output rnd (snd (osc2_output rnd (oscillator_phases (aux_envelopes (amp_envelope_step s))))))))"
  unfolding process_def Let_def case_prod_beta snd_conv ..

lemma amp_envelope_step_off: "envelope_state s = k_state_off \<Longrightarrow> amp_envelope_step s = s"
  by (simp add: amp_envelope_step_def)

lemma aux_envelopes_off: "envelope_state s = k_state_off \<Longrightarrow> aux_envelopes s = s"
  by (simp add: aux_envelopes_def)

lemma osc2_output_state: "osc2_waveform s \<noteq> k_wave_noise \<Longrightarrow> snd (osc2_output rnd s) = s"
  by (simp add: osc2_output_def)

lemma click_output_off: "envelope_state s = k_state_off \<Longrightarrow> snd (click_output rnd s) = s"
  by (simp add: click_output_def)

lemma filter_stage_bypass: "\<not> filter_enabled s \<Longrightarrow> filter_stage x s = (x, s)"
  by (simp add: filter_stage_def)

lemma oscillator_phases_keeps:
  "envelope_state (oscillator_phases s) = envelope_state s"
  "filter_enabled (oscillator_phases s) = filter_enabled s"
  "osc2_waveform (oscillator_phases s) = osc2_waveform s"
  by (simp_all add: oscillator_phases_def Let_def)

lemma process_off:
  assumes "envelope_state s = k_state_off" "\<not> filter_enabled s" "osc2_waveform s \<noteq> k_wave_noise"
  shows "snd (process rnd s) = oscillator_phases s"
  using assms
  by (simp only: process_snd amp_envelope_step_off aux_envelopes_off osc2_output_state
       click_output_off filter_stage_bypass oscillator_phases_keeps snd_conv not_False_eq_True)


lemma output_stage_bounds: "- 1 \<le> output_stage x s \<and> output_stage x s \<le> 1"
  by (simp add: output_stage_def Let_def)

lemma output_stage_clip:
  "output_stage x s = max (- 1) (min 1 (x * 1.3 * (envelope s * current_velocity s)))"
  by (simp add: output_stage_def Let_def max_def min_def)

lemma process_bounds: "- 1 \<le> fst (process rnd s) \<and> fst (process rnd s) \<le> 1"
  by (simp add: process_def Let_def case_prod_beta output_stage_bounds)

lemma Render_length: "length (fst (Render rnd n s)) = 2 * n"
  by (induction n arbitrary: s) (simp_all add: case_prod_beta Let_def)

lemma Render_frame:
  "i < frames \<Longrightarrow>
   fst (Render rnd frames s) ! (2 * i) = fst (Render rnd frames s) ! (2 * i + 1)
   \<and> - 1 \<le> fst (Render rnd frames s) ! (2 * i) \<and> fst (Render rnd frames s) ! (2 * i) \<le> 1"
proof (induction frames arbitrary: s i)
  case 0
  then show ?case by simp
next
  case (Suc n)
  show ?case
  proof (cases i)
    case 0
    then show ?thesis by (simp add: case_prod_beta Let_def process_bounds)
  next
    case (Suc j)
    with Suc.prems have "j < n" by simp
    from Suc.IH[OF this, of "snd (process rnd s)"] Suc show ?thesis
      by (simp add: case_prod_beta Let_def)
  qed
qed

subsection \<open>The amplitude envelope over a run of frames\<close>

lemma filter_stage_amp:
  "envelope (snd (filter_stage x s)) = envelope s"
  "envelope_state (snd (filter_stage x s)) = envelope_state s"
  "attack (snd (filter_stage x s)) = attack s"
  "release (snd (filter_stage x s)) = release s"
  by (simp_all add: filter_stage_def Let_def)

lemma click_output_amp:
  "envelope (snd (click_output rnd s)) = envelope s"
  "envelope_state (snd (click_output rnd s)) = envelope_state s"
  "attack (snd (click_output rnd s)) = attack s"
  "release (snd (click_output rnd s)) = release s"
  by (simp_all add: click_output_def Let_def)

lemma osc2_output_amp:
  "envelope (snd (osc2_output rnd s)) = envelope s"
  "envelope_state (snd (osc2_output rnd s)) = envelope_state s"
  "attack (snd (osc2_output rnd s)) = attack s"
  "release (snd (osc2_output rnd s)) = release s"
  by (simp_all add: osc2_output_def)

lemma oscillator_phases_amp:
  "envelope (oscillator_phases s) = envelope s"
  "envelope_state (oscillator_phases s) = envelope_state s"
  "attack (oscillator_phases s) = attack s"
  "release (oscillator_phases s) = release s"
  by (simp_all add: oscillator_phases_def Let_def)

lemma aux_envelopes_amp:
  "envelope (aux_envelopes s) = envelope s"
  "envelope_state (aux_envelopes s) = envelope_state s"
  "attack (aux_envelopes s) = attack s"
  "release (aux_envelopes s) = release s"
  by (simp_all add: aux_envelopes_def)

lemma amp_envelope_step_params:
  "attack (amp_envelope_step s) = attack s"
  "release (amp_envelope_step s) = release s"
  by (simp_all add: amp_envelope_step_def split: env_state.split)

lemma process_amp:
  "envelope (snd (process rnd s)) = envelope (amp_envelope_step s)"
  "envelope_state (snd (process rnd s)) = envelope_state (amp_envelope_step s)"
  "attack (snd (process rnd s)) = attack s"
  "release (snd (process rnd s)) = release s"
  by (simp_all only: process_snd filter_stage_amp click_output_amp osc2_output_amp
      oscillator_phases_amp aux_envelopes_amp amp_envelope_step_params)

lemma rendered_0: "rendered rnd 0 s = s"
  by (simp add: rendered_def)

lemma rendered_Suc: "rendered rnd (Suc k) s = rendered rnd k (snd (process rnd s))"
  by (simp add: rendered_def case_prod_beta Let_def)

lemma rendered_add: "rendered rnd (j + k) s = rendered rnd k (rendered rnd j s)"
  by (induction j arbitrary: s) (simp_all add: rendered_0 rendered_Suc)

lemma rendered_Suc_end: "rendered rnd (Suc k) s = snd (process rnd (rendered rnd k s))"
  using rendered_add[of rnd k 1 s] by (simp add: rendered_Suc rendered_0)

lemma rendered_params:
  "attack (rendered rnd k s) = attack s" "release (rendered rnd k s) = release s"
  by (induction k arbitrary: s) (simp_all add: rendered_0 rendered_Suc process_amp)


lemma attack_sample:
  assumes "envelope_state s = k_state_attack"
  shows "attack s = 0 \<or> 1 \<le> envelope s + 1 / (attack s / 1000 * k_samplerate) \<Longrightarrow>
           envelope_state (snd (process rnd s)) = k_state_decay \<and> envelope (snd (process rnd s)) = 1"
    and "attack s \<noteq> 0 \<Longrightarrow> envelope s + 1 / (attack s / 1000 * k_samplerate) < 1 \<Longrightarrow>
           envelope_state (snd (process rnd s)) = k_state_attack
           \<and> envelope (snd (process rnd s)) = envelope s + 1 / (attack s / 1000 * k_samplerate)"
  using assms by (auto simp add: process_amp amp_envelope_step_def)

lemma decay_sample:
  assumes "envelope_state s = k_state_decay \<or> envelope_state s = k_state_release"
  shows "release s = 0 \<or> envelope s - 1 / (release s / 1000 * k_samplerate) \<le> 0 \<Longrightarrow>
           envelope_state (snd (process rnd s)) = k_state_off \<and> envelope (snd (process rnd s)) = 0"
    and "release s \<noteq> 0 \<Longrightarrow> 0 < envelope s - 1 / (release s / 1000 * k_samplerate) \<Longrightarrow>
           envelope_state (snd (process rnd s)) = envelope_state s
           \<and> envelope (snd (process rnd s)) = envelope s - 1 / (release s / 1000 * k_samplerate)"
  using assms by (auto simp add: process_amp amp_envelope_step_def)

lemma off_sample:
  assumes "envelope_state s = k_state_off"
  shows "envelope_state (snd (process rnd s)) = k_state_off"
    and "envelope (snd (process rnd s)) = envelope s"
  using assms by (simp_all add: process_amp amp_envelope_step_def)

lemma step_pos: "0 < t \<Longrightarrow> 0 < 1 / (t / 1000 * k_samplerate)"
  by (simp add: k_samplerate_def)

lemma attack_reaches:
  "envelope_state s = k_state_attack \<Longrightarrow> 0 \<le> envelope s \<Longrightarrow> envelope s < 1 \<Longrightarrow> 0 < attack s \<Longrightarrow>
   1 - envelope s \<le> real n * (1 / (attack s / 1000 * k_samplerate)) \<Longrightarrow>
   \<exists>N>0. envelope_state (rendered rnd N s) = k_state_decay \<and> envelope (rendered rnd N s) = 1
     \<and> (\<forall>k<N. envelope_state (rendered rnd k s) = k_state_attack
           \<and> 0 \<le> envelope (rendered rnd k s) \<and> envelope (rendered rnd k s) < 1
           \<and> envelope (rendered rnd k s) < envelope (rendered rnd (Suc k) s))"
proof (induction n arbitrary: s)
  case 0
  then show ?case by simp
next
  case (Suc n)
  let ?inc = "1 / (attack s / 1000 * k_samplerate)"
  let ?s' = "snd (process rnd s)"
  have inc: "0 < ?inc" using Suc.prems(4) by (rule step_pos)
  have nz: "attack s \<noteq> 0" using Suc.prems(4) by simp
  show ?case
  proof (cases "1 \<le> envelope s + ?inc")
    case True
    with attack_sample(1)[OF Suc.prems(1), of rnd]
    have "envelope_state ?s' = k_state_decay" "envelope ?s' = 1" by simp_all
    with Suc.prems(1,2,3) show ?thesis
      by (intro exI[of _ 1]) (simp add: rendered_Suc rendered_0)
  next
    case False
    then have lt: "envelope s + ?inc < 1" by simp
    from attack_sample(2)[OF Suc.prems(1) nz lt, of rnd]
    have st: "envelope_state ?s' = k_state_attack" and ev: "envelope ?s' = envelope s + ?inc"
      by simp_all
    have at: "attack ?s' = attack s" by (simp add: process_amp)
    have b: "1 - envelope ?s' \<le> real n * (1 / (attack ?s' / 1000 * k_samplerate))"
    proof -
      define d where "d = ?inc"
      from Suc.prems(5) have "1 - envelope s \<le> real n * d + d"
        unfolding d_def by (simp only: of_nat_Suc distrib_right mult_1 add.commute)
      then have "1 - (envelope s + d) \<le> real n * d" by simp
      then show ?thesis unfolding d_def at ev .
    qed
    have "0 \<le> envelope ?s'" "envelope ?s' < 1" "0 < attack ?s'"
      using ev inc lt Suc.prems(2,4) at by simp_all
    from Suc.IH[OF st this b] obtain N where N: "0 < N"
      "envelope_state (rendered rnd N ?s') = k_state_decay" "envelope (rendered rnd N ?s') = 1"
      "\<forall>k<N. envelope_state (rendered rnd k ?s') = k_state_attack
           \<and> 0 \<le> envelope (rendered rnd k ?s') \<and> envelope (rendered rnd k ?s') < 1
           \<and> envelope (rendered rnd k ?s') < envelope (rendered rnd (Suc k) ?s')"
      by blast
    have "\<forall>k<Suc N. envelope_state (rendered rnd k s) = k_state_attack
           \<and> 0 \<le> envelope (rendered rnd k s) \<and> envelope (rendered rnd k s) < 1
           \<and> envelope (rendered rnd k s) < envelope (rendered rnd (Suc k) s)"
    proof (intro allI impI)
      fix k assume k: "k < Suc N"
      show "envelope_state (rendered rnd k s) = k_state_attack
           \<and> 0 \<le> envelope (rendered rnd k s) \<and> envelope (rendered rnd k s) < 1
           \<and> envelope (rendered rnd k s) < envelope (rendered rnd (Suc k) s)"
      proof (cases k)
        case 0
        then show ?thesis using Suc.prems(1,2,3) ev inc
          by (simp add: rendered_0 rendered_Suc)
      next
        case (Suc j)
        with k have "j < N" by simp
        with N(4) Suc show ?thesis by (simp add: rendered_Suc)
      qed
    qed
    with N(2,3) show ?thesis
      by (intro exI[of _ "Suc N"]) (simp add: rendered_Suc)
  qed
qed

lemma attack_phase:
  assumes "envelope_state s = k_state_attack" "0 \<le> envelope s" "envelope s < 1" "0 \<le> attack s"
  shows "\<exists>N>0. envelope_state (rendered rnd N s) = k_state_decay \<and> envelope (rendered rnd N s) = 1
     \<and> (\<forall>k<N. envelope_state (rendered rnd k s) = k_state_attack
           \<and> 0 \<le> envelope (rendered rnd k s) \<and> envelope (rendered rnd k s) < 1
           \<and> envelope (rendered rnd k s) < envelope (rendered rnd (Suc k) s))"
proof (cases "attack s = 0")
  case True
  with attack_sample(1)[OF assms(1), of rnd]
  have "envelope_state (snd (process rnd s)) = k_state_decay" "envelope (snd (process rnd s)) = 1"
    by simp_all
  with assms show ?thesis
    by (intro exI[of _ 1]) (simp add: rendered_Suc rendered_0)
next
  case False
  with assms(4) have pos: "0 < attack s" by simp
  from reals_Archimedean3[OF step_pos[OF pos]]
  obtain n where "1 - envelope s < real n * (1 / (attack s / 1000 * k_samplerate))" by blast
  then have "1 - envelope s \<le> real n * (1 / (attack s / 1000 * k_samplerate))" by simp
  from attack_reaches[OF assms(1,2,3) pos this] show ?thesis .
qed


lemma decay_reaches:
  "envelope_state s = k_state_decay \<Longrightarrow> 0 < envelope s \<Longrightarrow> envelope s \<le> 1 \<Longrightarrow> 0 < release s \<Longrightarrow>
   envelope s \<le> real n * (1 / (release s / 1000 * k_samplerate)) \<Longrightarrow>
   \<exists>M>0. envelope_state (rendered rnd M s) = k_state_off \<and> envelope (rendered rnd M s) = 0
     \<and> (\<forall>k<M. envelope_state (rendered rnd k s) = k_state_decay
           \<and> 0 < envelope (rendered rnd k s) \<and> envelope (rendered rnd k s) \<le> 1
           \<and> envelope (rendered rnd (Suc k) s) < envelope (rendered rnd k s))"
proof (induction n arbitrary: s)
  case 0
  then show ?case by simp
next
  case (Suc n)
  let ?dec = "1 / (release s / 1000 * k_samplerate)"
  let ?s' = "snd (process rnd s)"
  have dec: "0 < ?dec" using Suc.prems(4) by (rule step_pos)
  have nz: "release s \<noteq> 0" using Suc.prems(4) by simp
  have dr: "envelope_state s = k_state_decay \<or> envelope_state s = k_state_release"
    using Suc.prems(1) by simp
  show ?case
  proof (cases "envelope s - ?dec \<le> 0")
    case True
    with decay_sample(1)[OF dr, of rnd]
    have "envelope_state ?s' = k_state_off" "envelope ?s' = 0" by simp_all
    with Suc.prems(1,2,3) show ?thesis
      by (intro exI[of _ 1]) (simp add: rendered_Suc rendered_0)
  next
    case False
    then have gt: "0 < envelope s - ?dec" by simp
    from decay_sample(2)[OF dr nz gt, of rnd] Suc.prems(1)
    have st: "envelope_state ?s' = k_state_decay" and ev: "envelope ?s' = envelope s - ?dec"
      by simp_all
    have rl: "release ?s' = release s" by (simp add: process_amp)
    have b: "envelope ?s' \<le> real n * (1 / (release ?s' / 1000 * k_samplerate))"
    proof -
      define d where "d = ?dec"
      from Suc.prems(5) have "envelope s \<le> real n * d + d"
        unfolding d_def by (simp only: of_nat_Suc distrib_right mult_1 add.commute)
      then have "envelope s - d \<le> real n * d" by simp
      then show ?thesis unfolding d_def rl ev .
    qed
    have p1: "0 < envelope ?s'" unfolding ev using gt .
    have p2: "envelope ?s' \<le> 1" unfolding ev using dec Suc.prems(3) by linarith
    have p3: "0 < release ?s'" unfolding rl using Suc.prems(4) .
    from Suc.IH[OF st p1 p2 p3 b] obtain M where M: "0 < M"
      "envelope_state (rendered rnd M ?s') = k_state_off" "envelope (rendered rnd M ?s') = 0"
      "\<forall>k<M. envelope_state (rendered rnd k ?s') = k_state_decay
           \<and> 0 < envelope (rendered rnd k ?s') \<and> envelope (rendered rnd k ?s') \<le> 1
           \<and> envelope (rendered rnd (Suc k) ?s') < envelope (rendered rnd k ?s')"
      by blast
    have "\<forall>k<Suc M. envelope_state (rendered rnd k s) = k_state_decay
           \<and> 0 < envelope (rendered rnd k s) \<and> envelope (rendered rnd k s) \<le> 1
           \<and> envelope (rendered rnd (Suc k) s) < envelope (rendered rnd k s)"
    proof (intro allI impI)
      fix k assume k: "k < Suc M"
      show "envelope_state (rendered rnd k s) = k_state_decay
           \<and> 0 < envelope (rendered rnd k s) \<and> envelope (rendered rnd k s) \<le> 1
           \<and> envelope (rendered rnd (Suc k) s) < envelope (rendered rnd k s)"
      proof (cases k)
        case 0
        then show ?thesis using Suc.prems(1,2,3) ev dec
          by (simp add: rendered_0 rendered_Suc)
      next
        case (Suc j)
        with k have "j < M" by simp
        with M(4) Suc show ?thesis by (simp add: rendered_Suc)
      qed
    qed
    with M(2,3) show ?thesis
      by (intro exI[of _ "Suc M"]) (simp add: rendered_Suc)
  qed
qed

lemma decay_phase:
  assumes "envelope_state s = k_state_decay" "0 < envelope s" "envelope s \<le> 1" "0 < release s"
  shows "\<exists>M>0. envelope_state (rendered rnd M s) = k_state_off \<and> envelope (rendered rnd M s) = 0
     \<and> (\<forall>k<M. envelope_state (rendered rnd k s) = k_state_decay
           \<and> 0 < envelope (rendered rnd k s) \<and> envelope (rendered rnd k s) \<le> 1
           \<and> envelope (rendered rnd (Suc k) s) < envelope (rendered rnd k s))"
proof -
  from reals_Archimedean3[OF step_pos[OF assms(4)]]
  obtain n where "envelope s < real n * (1 / (release s / 1000 * k_samplerate))" by blast
  then have "envelope s \<le> real n * (1 / (release s / 1000 * k_samplerate))" by simp
  from decay_reaches[OF assms this] show ?thesis .
qed

lemma off_forever:
  "envelope_state s = k_state_off \<Longrightarrow>
   envelope_state (rendered rnd k s) = k_state_off \<and> envelope (rendered rnd k s) = envelope s"
  by (induction k arbitrary: s) (simp_all add: rendered_0 rendered_Suc off_sample)

subsection \<open>A rendered sample and the output stage\<close>

lemma process_fst:
  "fst (process rnd s) =
     output_stage
       (fst (filter_stage
          (drive_stage (waveformSine (phase1 (oscillator_phases (aux_envelopes (amp_envelope_step s))))
               * body_level (oscillator_phases (aux_envelopes (amp_envelope_step s)))
             + fst (osc2_output rnd (oscillator_phases (aux_envelopes (amp_envelope_step s))))
             + fst (click_output rnd (snd (osc2_output rnd (oscillator_phases (aux_envelopes (amp_envelope_step s)))))))
             (snd (click_output rnd (snd (osc2_output rnd (oscillator_phases (aux_envelopes (amp_envelope_step s))))))))
          (snd (click_output rnd (snd (osc2_output rnd (oscillator_phases (aux_envelopes (amp_envelope_step s)))))))))
       (snd (process rnd s))"
  unfolding process_def Let_def case_prod_beta fst_conv snd_conv ..

lemma filter_stage_switches:
  "filter_enabled (snd (filter_stage x s)) = filter_enabled s"
  "filter_mode_24db (snd (filter_stage x s)) = filter_mode_24db s"
  "current_velocity (snd (filter_stage x s)) = current_velocity s"
  by (simp_all add: filter_stage_def Let_def)

lemma click_output_switches:
  "filter_enabled (snd (click_output rnd s)) = filter_enabled s"
  "filter_mode_24db (snd (click_output rnd s)) = filter_mode_24db s"
  "current_velocity (snd (click_output rnd s)) = current_velocity s"
  by (simp_all add: click_output_def Let_def)

lemma osc2_output_switches:
  "filter_enabled (snd (osc2_output rnd s)) = filter_enabled s"
  "filter_mode_24db (snd (osc2_output rnd s)) = filter_mode_24db s"
  "current_velocity (snd (osc2_output rnd s)) = current_velocity s"
  by (simp_all add: osc2_output_def)

lemma oscillator_phases_switches:
  "filter_enabled (oscillator_phases s) = filter_enabled s"
  "filter_mode_24db (oscillator_phases s) = filter_mode_24db s"
  "current_velocity (oscillator_phases s) = current_velocity s"
  by (simp_all add: oscillator_phases_def Let_def)

lemma aux_envelopes_switches:
  "filter_enabled (aux_envelopes s) = filter_enabled s"
  "filter_mode_24db (aux_envelopes s) = filter_mode_24db s"
  "current_velocity (aux_envelopes s) = current_velocity s"
  by (simp_all add: aux_envelopes_def)

lemma amp_envelope_step_switches:
  "filter_enabled (amp_envelope_step s) = filter_enabled s"
  "filter_mode_24db (amp_envelope_step s) = filter_mode_24db s"
  "current_velocity (amp_envelope_step s) = current_velocity s"
  by (simp_all add: amp_envelope_step_def split: env_state.split)

lemma process_velocity: "current_velocity (snd (process rnd s)) = current_velocity s"
  by (simp only: process_snd filter_stage_switches click_output_switches osc2_output_switches
      oscillator_phases_switches aux_envelopes_switches amp_envelope_step_switches)

lemma filter_stage_dry: "\<not> filter_enabled s \<Longrightarrow> fst (filter_stage x s) = x"
  by (simp add: filter_stage_def)

lemma filter_poles_written:
  "filter_state3 (s\<lparr>filter_state0 := a, filter_state1 := b, filter_state2 := c,
      filter_state3 := d\<rparr>) = d"
  "filter_state1 (s\<lparr>filter_state0 := a, filter_state1 := b\<rparr>) = b"
  by simp_all

lemma filter_stage_pole:
  assumes "filter_enabled s"
  shows "fst (filter_stage x s)
     = (if filter_mode_24db s then filter_state3 (snd (filter_stage x s))
        else filter_state1 (snd (filter_stage x s)))"
proof (cases "filter_mode_24db s")
  case True
  with assms show ?thesis
    unfolding filter_stage_def Let_def
    by (simp only: if_True fst_conv snd_conv filter_poles_written)
next
  case False
  with assms show ?thesis
    unfolding filter_stage_def Let_def
    by (simp only: if_True if_False fst_conv snd_conv filter_poles_written)
qed

lemma Render_sample:
  "i < frames \<Longrightarrow>
   fst (Render rnd frames s) ! (2 * i) = fst (process rnd (rendered rnd i s))
   \<and> fst (Render rnd frames s) ! (2 * i + 1) = fst (process rnd (rendered rnd i s))"
proof (induction frames arbitrary: s i)
  case 0
  then show ?case by simp
next
  case (Suc n)
  show ?case
  proof (cases i)
    case 0
    then show ?thesis by (simp add: case_prod_beta Let_def rendered_0)
  next
    case (Suc j)
    with Suc.prems have "j < n" by simp
    from Suc.IH[OF this, of "snd (process rnd s)"] Suc show ?thesis
      by (simp add: case_prod_beta Let_def rendered_Suc)
  qed
qed


subsection \<open>The wrap of a phase\<close>

lemma wrap_phase_range:
  "0 \<le> p \<Longrightarrow> p < 1 \<Longrightarrow> 0 \<le> d \<Longrightarrow> d < 1 \<Longrightarrow>
   0 \<le> wrap_phase (p + d) \<and> wrap_phase (p + d) < 1"
  by (simp add: wrap_phase_def)

lemma wrap_phase_below: "p + d < 0 \<Longrightarrow> wrap_phase (p + d) = p + d"
  by (simp add: wrap_phase_def)

subsection \<open>The frequency-modulation scenario\<close>

lemma Render_snd_Suc: "snd (Render rnd (Suc n) s) = snd (Render rnd n (snd (process rnd s)))"
  by (simp add: case_prod_beta Let_def)

lemma sin_three_quarters: "sin (3 / 4 * (2 * pi)) = - 1"
proof -
  have "3 / 4 * (2 * pi) = 3 / 2 * (pi::real)" by simp
  then show ?thesis by (simp only: sin_3over2_pi)
qed

lemma fm_setup_val: "fm_setup = Synth_new\<lparr>pitch := 150, fm_ratio := 5\<rparr>"
  by (simp add: fm_setup_def setParameter_def param_defs to_float_def)

lemma fm_setup_fields: "envelope_state fm_setup = k_state_off" "\<not> filter_enabled fm_setup"
  "osc2_waveform fm_setup = k_wave_sine" "pitch fm_setup = 150" "pitch_envelope fm_setup = 0"
  "osc2_pitch fm_setup = 2" "fm_ratio fm_setup = 5" "fm_amount fm_setup = 0" "click_freq fm_setup = 200"
  by (simp_all add: fm_setup_val Synth_new_def initParams_def reset_def)

lemma fm_setup_step:
  "snd (process rnd (fm_setup\<lparr>phase1 := p1, phase2 := p2, click_phase := pc\<rparr>))
   = fm_setup\<lparr>phase1 := wrap_phase (p1 + 1 / 320), phase2 := wrap_phase (p2 + 1 / 32),
        click_phase := wrap_phase (pc + 1 / 240)\<rparr>"
  by (simp add: process_off fm_setup_fields k_wave_sine_def k_wave_noise_def oscillator_phases_def Let_def k_samplerate_def)

lemma fm_setup_start: "fm_setup = fm_setup\<lparr>phase1 := 0, phase2 := 0, click_phase := 0\<rparr>"
  by (simp add: fm_setup_val Synth_new_def initParams_def reset_def)

lemma fm_warmup_val: "fm_warmup rnd = fm_setup\<lparr>phase1 := 3/40, phase2 := 3/4, click_phase := 1/10\<rparr>"
proof -
  have "fm_warmup rnd = snd (Render rnd 24 (fm_setup\<lparr>phase1 := 0, phase2 := 0, click_phase := 0\<rparr>))"
    unfolding fm_warmup_def using fm_setup_start by simp
  also have "\<dots> = fm_setup\<lparr>phase1 := 3/40, phase2 := 3/4, click_phase := 1/10\<rparr>"
    by (simp add: eval_nat_numeral Render_snd_Suc fm_setup_step wrap_phase_def del: Render.simps(2))
  finally show ?thesis .
qed


lemma fm_idle_step:
  assumes "fm_idle s" "phase1 s < 1"
  shows "fm_idle (snd (process rnd s)) \<and> phase1 (snd (process rnd s)) = phase1 s - 1 / 480"
proof -
  have off: "snd (process rnd s) = oscillator_phases s"
    using assms by (simp add: process_off fm_idle_def k_wave_sine_def k_wave_noise_def)
  from assms have p2: "phase2 s = 3 / 4" by (simp add: fm_idle_def)
  have w: "waveformSine (phase2 s) = - 1"
    unfolding p2 waveformSine_def k_twopi_def k_pi_def by (rule sin_three_quarters)
  show ?thesis
    unfolding off using assms w
    by (simp add: fm_idle_def oscillator_phases_def Let_def wrap_phase_def k_samplerate_def)
qed

lemma fm_idle_run:
  "fm_idle s \<Longrightarrow> phase1 s < 1 \<Longrightarrow>
   fm_idle (snd (Render rnd n s)) \<and> phase1 (snd (Render rnd n s)) = phase1 s - real n / 480"
proof (induction n arbitrary: s)
  case 0
  then show ?case by simp
next
  case (Suc n)
  from fm_idle_step[OF Suc.prems, of rnd]
  have a: "fm_idle (snd (process rnd s))" and b: "phase1 (snd (process rnd s)) = phase1 s - 1 / 480"
    by simp_all
  from b Suc.prems have c: "phase1 (snd (process rnd s)) < 1" by simp
  from Suc.IH[OF a c] b show ?case
    by (simp add: Render_snd_Suc add_divide_distrib del: Render.simps(2))
qed

lemma fm_trigger_val:
  "fm_trigger rnd = fm_setup\<lparr>phase1 := 3/40, phase2 := 3/4, click_phase := 1/10,
      pitch_curve := 1, fm_amount := 1, current_note := 60, current_velocity := 100 / 127,
      envelope_state := k_state_release, envelope := 0, pitch_envelope := 1,
      osc2_envelope := 1, click_envelope := 1, last_noise := 0,
      filter_state0 := 0, filter_state1 := 0, filter_state2 := 0, filter_state3 := 0\<rparr>"
  by (simp add: fm_trigger_def fm_warmup_val setParameter_def param_defs to_float_def NoteOn_def NoteOff_def)


lemma fm_trigger_first:
  "fm_idle (snd (process rnd (fm_trigger rnd))) \<and> phase1 (snd (process rnd (fm_trigger rnd))) = 7 / 96"
proof -
  have fields: "envelope_state (fm_trigger rnd) = k_state_release" "envelope (fm_trigger rnd) = 0"
    "release (fm_trigger rnd) = 300" "\<not> filter_enabled (fm_trigger rnd)"
    "osc2_waveform (fm_trigger rnd) = k_wave_sine" "osc2_enabled (fm_trigger rnd) = 1"
    "fm_amount (fm_trigger rnd) = 1" "osc2_envelope (fm_trigger rnd) = 1"
    "pitch_envelope (fm_trigger rnd) = 1" "pitch_curve (fm_trigger rnd) = 1"
    "phase2 (fm_trigger rnd) = 3 / 4" "phase1 (fm_trigger rnd) = 3 / 40"
    by (simp_all add: fm_trigger_val fm_setup_val Synth_new_def initParams_def reset_def)
  have e: "amp_envelope_step (fm_trigger rnd) = (fm_trigger rnd)\<lparr>envelope := 0, envelope_state := k_state_off\<rparr>"
    by (simp add: amp_envelope_step_def fields k_samplerate_def)
  let ?t = "(fm_trigger rnd)\<lparr>envelope := 0, envelope_state := k_state_off\<rparr>"
  have e': "amp_envelope_step ?t = ?t"
    by (simp add: amp_envelope_step_def)
  have "snd (process rnd (fm_trigger rnd)) = snd (process rnd ?t)"
    by (simp only: process_snd e e')
  moreover have "fm_idle ?t" "phase1 ?t < 1"
    by (simp_all add: fm_idle_def fields)
  ultimately show ?thesis
    using fm_idle_step[of ?t rnd] by (simp add: fields)
qed

subsection \<open>Control operations\<close>

lemma init_state:
  "initParams (reset s) = \<lparr>
     phase1 = 0, phase2 = 0, click_phase = 0, envelope = 0, pitch_envelope = 0,
     osc2_envelope = 0, click_envelope = 0, envelope_state = k_state_off,
     current_note = 0, current_velocity = 0, preset_index = 0,
     pitch = 55, decay = 130, pitch_curve = 0.5, body_level = 0.9, drive = 0.4, attack = 2,
     release = 300, click_level = 0.5, click_freq = 200, click_decay = 20, click_tone = 0.6,
     last_noise = 0, filter_enabled = False, filter_cutoff = 0.7, filter_resonance = 0.2,
     filter_mode_24db = False, filter_state0 = 0, filter_state1 = 0, filter_state2 = 0,
     filter_state3 = 0, osc2_enabled = 1, osc2_waveform = k_wave_sine, osc2_pitch = 2,
     osc2_level = 0.5, fm_amount = 0, fm_ratio = 2, osc2_decay = 100, pulse_width = 0.5,
     rand_calls = rand_calls s\<rparr>"
  by (simp add: initParams_def reset_def)

lemma Synth_new_fields:
  "envelope_state Synth_new = k_state_off" "current_note Synth_new = 0"
  "attack Synth_new = 2" "release Synth_new = 300" "envelope Synth_new = 0"
  by (simp_all add: Synth_new_def init_state)

lemma zeroed_phases:
  "phase1 (reset s) = 0" "phase2 (reset s) = 0" "click_phase (reset s) = 0"
  "phase1 (initParams (reset s)) = 0" "phase2 (initParams (reset s)) = 0"
  "click_phase (initParams (reset s)) = 0"
  "phase1 Synth_new = 0" "phase2 Synth_new = 0" "click_phase Synth_new = 0"
  by (simp_all add: Synth_new_def initParams_def reset_def)

lemma control_keeps_state:
  "envelope_state (setParameter i v s) = envelope_state s"
  "envelope_state (LoadPreset p s) = envelope_state s"
  "envelope_state (reset s) = k_state_off"
  by (simp_all add: setParameter_def LoadPreset_def reset_def Let_def)

text \<open>What \<^verbatim>\<open>reset\<close> writes, field by field: the voice state and two of the parameters.\<close>

lemma reset_effect:
  "reset s = s\<lparr>phase1 := 0, phase2 := 0, click_phase := 0, envelope := 0,
     pitch_envelope := 0, osc2_envelope := 0, click_envelope := 0,
     envelope_state := k_state_off, current_note := 0, current_velocity := 0,
     filter_state0 := 0, filter_state1 := 0, filter_state2 := 0, filter_state3 := 0,
     last_noise := 0, filter_enabled := False, filter_mode_24db := False\<rparr>"
  by (simp add: reset_def)

text \<open>An index that is none of the five presets changes \<^verbatim>\<open>preset_index_\<close> and nothing else.\<close>

lemma LoadPreset_unknown:
  assumes "5 \<le> index"
  shows "LoadPreset index s = s\<lparr>preset_index := index\<rparr>"
proof -
  have ne: "index \<noteq> 0" "index \<noteq> 1" "index \<noteq> 2" "index \<noteq> 3" "index \<noteq> 4"
    using assms by (auto simp add: word_le_nat_alt)
  show ?thesis
    unfolding LoadPreset_def preset_defs Let_def by (simp only: ne if_False)
qed

text \<open>The string lookup as a function of the argument truncated to eight bits.\<close>

lemma getParameterStrValue_cases:
  "getParameterStrValue index v =
     (if index = 16 \<and> (ucast v :: 8 word) < 5 then s_waveform_names ! unat (ucast v :: 8 word)
      else ''---'')"
  by (simp add: getParameterStrValue_def k_param_osc2_waveform_def k_num_waves_def)

section \<open>Properties\<close>

text \<open>
  C1. For every call of \<^verbatim>\<open>Render\<close>, whatever the object's state and parameters and whatever
  \<^verbatim>\<open>std::rand\<close> returns, \<open>2 * frames\<close> values are written; in each frame \<open>i < frames\<close> the left and
  the right value are the same, and that value lies between \<open>- 1\<close> and \<open>1\<close> inclusive. The
  value of frame \<open>i\<close> is computed from the object \<open>t\<close> left by the frames before it: it is the
  signal \<open>filtered\<close> times the makeup gain 1.3, times the amplitude envelope times the
  velocity, clipped to \<open>[- 1, 1]\<close>. Here the envelope is the one this frame's envelope step
  has produced and the velocity is unchanged; \<open>filtered\<close> is the output of the drive stage
  itself (\<open>dry\<close>) when the filter is off, and the last pole the filter has written (the
  fourth in 24 dB mode, the second otherwise) when it is on.
\<close>

theorem Render_stereo_bounded:
  assumes "i < frames"
  shows "length (fst (Render rnd frames s)) = 2 * frames
     \<and> fst (Render rnd frames s) ! (2 * i) = fst (Render rnd frames s) ! (2 * i + 1)
     \<and> - 1 \<le> fst (Render rnd frames s) ! (2 * i)
     \<and> fst (Render rnd frames s) ! (2 * i) \<le> 1
     \<and> output_stage x s = max (- 1) (min 1 (x * 1.3 * (envelope s * current_velocity s)))
     \<and> (let t = rendered rnd i s;
             t' = rendered rnd (Suc i) s;
             s3 = oscillator_phases (aux_envelopes (amp_envelope_step t));
             osc2 = osc2_output rnd s3;
             click = click_output rnd (snd osc2);
             dry = drive_stage
                     (waveformSine (phase1 s3) * body_level s3 + fst osc2 + fst click)
                     (snd click);
             filtered = fst (filter_stage dry (snd click))
         in fst (Render rnd frames s) ! (2 * i)
              = max (- 1) (min 1 (filtered * 1.3 * (envelope t' * current_velocity t')))
            \<and> filtered
              = (if filter_enabled t
                 then (if filter_mode_24db t then filter_state3 t' else filter_state1 t')
                 else dry)
            \<and> envelope t' = envelope (amp_envelope_step t)
            \<and> current_velocity t' = current_velocity t)"
proof -
  define t where "t = rendered rnd i s"
  define t' where "t' = rendered rnd (Suc i) s"
  define s3 where "s3 = oscillator_phases (aux_envelopes (amp_envelope_step t))"
  define osc2 where "osc2 = osc2_output rnd s3"
  define click where "click = click_output rnd (snd osc2)"
  define dry where "dry = drive_stage
                     (waveformSine (phase1 s3) * body_level s3 + fst osc2 + fst click)
                     (snd click)"
  define filtered where "filtered = fst (filter_stage dry (snd click))"
  have t': "t' = snd (process rnd t)"
    unfolding t'_def t_def by (rule rendered_Suc_end)
  have t'f: "t' = snd (filter_stage dry (snd click))"
    unfolding t' dry_def click_def osc2_def s3_def by (rule process_snd)
  have out: "fst (process rnd t) = output_stage filtered t'"
    unfolding filtered_def dry_def click_def osc2_def s3_def t'
    by (rule process_fst)
  have sample: "fst (Render rnd frames s) ! (2 * i) = fst (process rnd t)"
    unfolding t_def using Render_sample[OF assms, of rnd s] by simp
  have a: "fst (Render rnd frames s) ! (2 * i)
              = max (- 1) (min 1 (filtered * 1.3 * (envelope t' * current_velocity t')))"
    unfolding sample out by (rule output_stage_clip)
  have en: "filter_enabled (snd click) = filter_enabled t"
    and md: "filter_mode_24db (snd click) = filter_mode_24db t"
    unfolding click_def osc2_def s3_def
    by (simp_all only: click_output_switches osc2_output_switches oscillator_phases_switches
        aux_envelopes_switches amp_envelope_step_switches)
  have b: "filtered
              = (if filter_enabled t
                 then (if filter_mode_24db t then filter_state3 t' else filter_state1 t')
                 else dry)"
  proof (cases "filter_enabled t")
    case True
    then have "filter_enabled (snd click)" by (simp add: en)
    from filter_stage_pole[OF this, of dry] True show ?thesis
      unfolding filtered_def t'f md by simp
  next
    case False
    then have "\<not> filter_enabled (snd click)" by (simp add: en)
    from filter_stage_dry[OF this, of dry] False show ?thesis
      unfolding filtered_def by simp
  qed
  have c: "envelope t' = envelope (amp_envelope_step t)"
    unfolding t' by (rule process_amp)
  have d: "current_velocity t' = current_velocity t"
    unfolding t' by (rule process_velocity)
  have L: "(let t = rendered rnd i s;
             t' = rendered rnd (Suc i) s;
             s3 = oscillator_phases (aux_envelopes (amp_envelope_step t));
             osc2 = osc2_output rnd s3;
             click = click_output rnd (snd osc2);
             dry = drive_stage
                     (waveformSine (phase1 s3) * body_level s3 + fst osc2 + fst click)
                     (snd click);
             filtered = fst (filter_stage dry (snd click))
         in fst (Render rnd frames s) ! (2 * i)
              = max (- 1) (min 1 (filtered * 1.3 * (envelope t' * current_velocity t')))
            \<and> filtered
              = (if filter_enabled t
                 then (if filter_mode_24db t then filter_state3 t' else filter_state1 t')
                 else dry)
            \<and> envelope t' = envelope (amp_envelope_step t)
            \<and> current_velocity t' = current_velocity t)"
    unfolding Let_def
    using a b c d
    unfolding filtered_def dry_def click_def osc2_def s3_def t'_def t_def
    by (intro conjI)
  from Render_frame[OF assms, of rnd s] Render_length[of rnd frames s] output_stage_clip[of x s] L
  show ?thesis by (intro conjI) simp_all
qed

theorem Render_stereo_bounded_witness:
  "(1::nat) < 2
   \<and> length (fst (Render (\<lambda>k. 0) 2 (NoteOn 60 100 Synth_new))) = 2 * 2
   \<and> fst (Render (\<lambda>k. 0) 2 (NoteOn 60 100 Synth_new)) ! (2 * 1)
       = fst (Render (\<lambda>k. 0) 2 (NoteOn 60 100 Synth_new)) ! (2 * 1 + 1)
   \<and> - 1 \<le> fst (Render (\<lambda>k. 0) 2 (NoteOn 60 100 Synth_new)) ! (2 * 1)
   \<and> fst (Render (\<lambda>k. 0) 2 (NoteOn 60 100 Synth_new)) ! (2 * 1) \<le> 1
   \<and> (let t = rendered (\<lambda>k. 0) 1 (NoteOn 60 100 Synth_new);
           t' = rendered (\<lambda>k. 0) (Suc 1) (NoteOn 60 100 Synth_new);
           s3 = oscillator_phases (aux_envelopes (amp_envelope_step t));
           osc2 = osc2_output (\<lambda>k. 0) s3;
           click = click_output (\<lambda>k. 0) (snd osc2);
           dry = drive_stage
                   (waveformSine (phase1 s3) * body_level s3 + fst osc2 + fst click)
                   (snd click);
           filtered = fst (filter_stage dry (snd click))
       in fst (Render (\<lambda>k. 0) 2 (NoteOn 60 100 Synth_new)) ! (2 * 1)
            = max (- 1) (min 1 (filtered * 1.3 * (envelope t' * current_velocity t')))
          \<and> filtered
            = (if filter_enabled t
               then (if filter_mode_24db t then filter_state3 t' else filter_state1 t')
               else dry)
          \<and> envelope t' = envelope (amp_envelope_step t)
          \<and> current_velocity t' = current_velocity t)"
proof -
  have h: "(1::nat) < 2" by simp
  from Render_stereo_bounded[OF h, of "\<lambda>k. 0" "NoteOn 60 100 Synth_new" 0] h
  show ?thesis by blast
qed

text \<open>
  C2. One sample of the amplitude envelope, for an object \<open>t\<close> in any state. In Attack
  with a nonzero attack time the envelope grows by \<open>1000 / (attack * 48000)\<close>; when the sum
  reaches or exceeds 1 the envelope is exactly 1 and the state is Decay. In Decay and in
  Release with a nonzero release time it falls by \<open>1000 / (release * 48000)\<close>, the release
  time in both states; when the difference reaches or falls below 0 the envelope is
  exactly 0 and the state is Idle. A time of zero takes the clamp at once.

  Hence, for an attack time of at least 0 and a release time above 0, after \<^verbatim>\<open>NoteOn\<close> there
  are frame counts \<open>N < M\<close> such that the envelope rises strictly during the first \<open>N\<close>
  frames, all of them in Attack, is exactly 1 after \<open>N\<close> frames, falls strictly from frame
  \<open>N\<close> to frame \<open>M\<close>, all of them in Decay, is exactly 0 after \<open>M\<close> frames and stays 0 in Idle
  from then on; and it is in \<open>[0, 1]\<close> after every number of frames.
\<close>

theorem amp_envelope_shape:
  assumes "0 \<le> attack s" and "0 < release s"
  shows
    "(envelope_state t = k_state_attack \<and> attack t \<noteq> 0 \<longrightarrow>
        envelope (snd (process rnd t))
          = (if 1 \<le> envelope t + 1000 / (attack t * 48000) then 1
             else envelope t + 1000 / (attack t * 48000))
        \<and> envelope_state (snd (process rnd t))
          = (if 1 \<le> envelope t + 1000 / (attack t * 48000) then k_state_decay
             else k_state_attack))
     \<and> (envelope_state t = k_state_attack \<and> attack t = 0 \<longrightarrow>
        envelope (snd (process rnd t)) = 1
        \<and> envelope_state (snd (process rnd t)) = k_state_decay)
     \<and> ((envelope_state t = k_state_decay \<or> envelope_state t = k_state_release)
          \<and> release t \<noteq> 0 \<longrightarrow>
        envelope (snd (process rnd t))
          = (if envelope t - 1000 / (release t * 48000) \<le> 0 then 0
             else envelope t - 1000 / (release t * 48000))
        \<and> envelope_state (snd (process rnd t))
          = (if envelope t - 1000 / (release t * 48000) \<le> 0 then k_state_off
             else envelope_state t))
     \<and> ((envelope_state t = k_state_decay \<or> envelope_state t = k_state_release)
          \<and> release t = 0 \<longrightarrow>
        envelope (snd (process rnd t)) = 0
        \<and> envelope_state (snd (process rnd t)) = k_state_off)
     \<and> (\<exists>N M. 0 < N \<and> N < M
     \<and> (\<forall>k<N. envelope_state (rendered rnd k (NoteOn note velocity s)) = k_state_attack
            \<and> envelope (rendered rnd k (NoteOn note velocity s))
                < envelope (rendered rnd (Suc k) (NoteOn note velocity s)))
     \<and> envelope (rendered rnd N (NoteOn note velocity s)) = 1
     \<and> (\<forall>k. N \<le> k \<and> k < M \<longrightarrow>
            envelope_state (rendered rnd k (NoteOn note velocity s)) = k_state_decay
            \<and> envelope (rendered rnd (Suc k) (NoteOn note velocity s))
                < envelope (rendered rnd k (NoteOn note velocity s)))
     \<and> envelope (rendered rnd M (NoteOn note velocity s)) = 0
     \<and> (\<forall>k\<ge>M. envelope_state (rendered rnd k (NoteOn note velocity s)) = k_state_off
            \<and> envelope (rendered rnd k (NoteOn note velocity s)) = 0)
     \<and> (\<forall>k. 0 \<le> envelope (rendered rnd k (NoteOn note velocity s))
            \<and> envelope (rendered rnd k (NoteOn note velocity s)) \<le> 1))"
proof -
  have sample: "1 / (x / 1000 * k_samplerate) = 1000 / (x * 48000)" for x :: real
    by (simp add: k_samplerate_def)
  have A1: "envelope_state t = k_state_attack \<and> attack t \<noteq> 0 \<longrightarrow>
        envelope (snd (process rnd t))
          = (if 1 \<le> envelope t + 1000 / (attack t * 48000) then 1
             else envelope t + 1000 / (attack t * 48000))
        \<and> envelope_state (snd (process rnd t))
          = (if 1 \<le> envelope t + 1000 / (attack t * 48000) then k_state_decay
             else k_state_attack)"
    using attack_sample[of t rnd] unfolding sample by auto
  have A2: "envelope_state t = k_state_attack \<and> attack t = 0 \<longrightarrow>
        envelope (snd (process rnd t)) = 1
        \<and> envelope_state (snd (process rnd t)) = k_state_decay"
    using attack_sample(1)[of t rnd] by auto
  have D1: "(envelope_state t = k_state_decay \<or> envelope_state t = k_state_release)
          \<and> release t \<noteq> 0 \<longrightarrow>
        envelope (snd (process rnd t))
          = (if envelope t - 1000 / (release t * 48000) \<le> 0 then 0
             else envelope t - 1000 / (release t * 48000))
        \<and> envelope_state (snd (process rnd t))
          = (if envelope t - 1000 / (release t * 48000) \<le> 0 then k_state_off
             else envelope_state t)"
  proof (cases "envelope t - 1000 / (release t * 48000) \<le> 0")
    case True
    then show ?thesis using decay_sample(1)[of t rnd] unfolding sample by auto
  next
    case False
    then show ?thesis using decay_sample(2)[of t rnd] unfolding sample by auto
  qed
  have D2: "(envelope_state t = k_state_decay \<or> envelope_state t = k_state_release)
          \<and> release t = 0 \<longrightarrow>
        envelope (snd (process rnd t)) = 0
        \<and> envelope_state (snd (process rnd t)) = k_state_off"
    using decay_sample(1)[of t rnd] by auto
  define s0 where "s0 = NoteOn note velocity s"
  define E where "E k = envelope (rendered rnd k s0)" for k
  define S where "S k = envelope_state (rendered rnd k s0)" for k
  have s0: "envelope_state s0 = k_state_attack" "envelope s0 = 0" "attack s0 = attack s"
    "release s0 = release s"
    by (simp_all add: s0_def NoteOn_def)
  from attack_phase[of s0 rnd] s0 assms(1)
  obtain N where N: "0 < N" "S N = k_state_decay" "E N = 1"
    and NA: "\<And>k. k < N \<Longrightarrow> S k = k_state_attack \<and> 0 \<le> E k \<and> E k < 1 \<and> E k < E (Suc k)"
    unfolding E_def S_def by auto
  define s1 where "s1 = rendered rnd N s0"
  have shift: "rendered rnd (N + j) s0 = rendered rnd j s1" for j
    by (simp add: s1_def rendered_add)
  have s1: "envelope_state s1 = k_state_decay" "envelope s1 = 1" "release s1 = release s"
    using N(2,3) s0(4) by (simp_all add: s1_def E_def S_def rendered_params)
  from decay_phase[of s1 rnd] s1 assms(2)
  obtain M' where M': "0 < M'" "envelope_state (rendered rnd M' s1) = k_state_off"
      "envelope (rendered rnd M' s1) = 0"
    and MD: "\<And>j. j < M' \<Longrightarrow> envelope_state (rendered rnd j s1) = k_state_decay
           \<and> 0 < envelope (rendered rnd j s1) \<and> envelope (rendered rnd j s1) \<le> 1
           \<and> envelope (rendered rnd (Suc j) s1) < envelope (rendered rnd j s1)"
    by auto
  define M where "M = N + M'"
  have D: "S k = k_state_decay \<and> 0 < E k \<and> E k \<le> 1 \<and> E (Suc k) < E k" if "N \<le> k" "k < M" for k
  proof -
    from that obtain j where j: "k = N + j" "j < M'"
      unfolding M_def by (metis add_less_cancel_left le_Suc_ex)
    have "Suc k = N + Suc j" using j by simp
    with MD[OF j(2)] j(1) show ?thesis
      unfolding E_def S_def by (simp only: shift) 
  qed
  have O: "S k = k_state_off \<and> E k = 0" if "M \<le> k" for k
  proof -
    from that obtain j where j: "k = M + j" using le_Suc_ex by blast
    have "rendered rnd k s0 = rendered rnd j (rendered rnd M' s1)"
      unfolding j M_def by (simp add: rendered_add s1_def)
    with off_forever[OF M'(2), of rnd j] M'(3) show ?thesis
      unfolding E_def S_def by simp
  qed
  have B: "0 \<le> E k \<and> E k \<le> 1" for k
  proof -
    consider "k < N" | "N \<le> k" "k < M" | "M \<le> k" by linarith
    then show ?thesis
    proof cases
      case 1 with NA show ?thesis by force
    next
      case 2 with D show ?thesis by force
    next
      case 3 with O show ?thesis by force
    qed
  qed
  have "0 < N \<and> N < M
     \<and> (\<forall>k<N. S k = k_state_attack \<and> E k < E (Suc k))
     \<and> E N = 1
     \<and> (\<forall>k. N \<le> k \<and> k < M \<longrightarrow> S k = k_state_decay \<and> E (Suc k) < E k)
     \<and> E M = 0
     \<and> (\<forall>k\<ge>M. S k = k_state_off \<and> E k = 0)
     \<and> (\<forall>k. 0 \<le> E k \<and> E k \<le> 1)"
    using N(1,3) M'(1) NA D O B unfolding M_def by auto
  then have T: "\<exists>N M. 0 < N \<and> N < M
     \<and> (\<forall>k<N. envelope_state (rendered rnd k (NoteOn note velocity s)) = k_state_attack
            \<and> envelope (rendered rnd k (NoteOn note velocity s))
                < envelope (rendered rnd (Suc k) (NoteOn note velocity s)))
     \<and> envelope (rendered rnd N (NoteOn note velocity s)) = 1
     \<and> (\<forall>k. N \<le> k \<and> k < M \<longrightarrow>
            envelope_state (rendered rnd k (NoteOn note velocity s)) = k_state_decay
            \<and> envelope (rendered rnd (Suc k) (NoteOn note velocity s))
                < envelope (rendered rnd k (NoteOn note velocity s)))
     \<and> envelope (rendered rnd M (NoteOn note velocity s)) = 0
     \<and> (\<forall>k\<ge>M. envelope_state (rendered rnd k (NoteOn note velocity s)) = k_state_off
            \<and> envelope (rendered rnd k (NoteOn note velocity s)) = 0)
     \<and> (\<forall>k. 0 \<le> envelope (rendered rnd k (NoteOn note velocity s))
            \<and> envelope (rendered rnd k (NoteOn note velocity s)) \<le> 1)"
    unfolding E_def S_def s0_def by blast
  from A1 A2 D1 D2 T show ?thesis by (intro conjI)
qed

theorem amp_envelope_shape_witness:
  "0 \<le> attack Synth_new \<and> 0 < release Synth_new
   \<and> envelope (snd (process (\<lambda>k. 0) (NoteOn 60 100 Synth_new))) = 1 / 96
   \<and> envelope_state (snd (process (\<lambda>k. 0) (NoteOn 60 100 Synth_new))) = k_state_attack
   \<and> (\<exists>N M. 0 < N \<and> N < M
        \<and> envelope (rendered (\<lambda>k. 0) N (NoteOn 60 100 Synth_new)) = 1
        \<and> envelope (rendered (\<lambda>k. 0) M (NoteOn 60 100 Synth_new)) = 0)"
proof -
  have a: "0 \<le> attack Synth_new" and r: "0 < release Synth_new"
    by (simp_all add: Synth_new_fields)
  have t: "envelope_state (NoteOn 60 100 Synth_new) = k_state_attack"
    "attack (NoteOn 60 100 Synth_new) = 2" "envelope (NoteOn 60 100 Synth_new) = 0"
    by (simp_all add: NoteOn_def Synth_new_fields)
  note shape = amp_envelope_shape[OF a r, of "NoteOn 60 100 Synth_new" "\<lambda>k. 0" 60 100]
  from shape t have "envelope (snd (process (\<lambda>k. 0) (NoteOn 60 100 Synth_new))) = 1 / 96"
    "envelope_state (snd (process (\<lambda>k. 0) (NoteOn 60 100 Synth_new))) = k_state_attack"
    by simp_all
  moreover from shape have "\<exists>N M. 0 < N \<and> N < M
        \<and> envelope (rendered (\<lambda>k. 0) N (NoteOn 60 100 Synth_new)) = 1
        \<and> envelope (rendered (\<lambda>k. 0) M (NoteOn 60 100 Synth_new)) = 0"
    by blast
  ultimately show ?thesis using a r by simp
qed

text \<open>
  C3. For every note and velocity and every prior state, immediately after
  \<^verbatim>\<open>NoteOn(note, velocity)\<close> the amplitude envelope is 0, the pitch, secondary-oscillator and
  click envelopes are 1, the four filter accumulators and the click high-pass history
  sample are 0, the envelope phase is Attack, the current note is \<open>note\<close> and the current
  velocity is \<open>velocity / 127\<close>.
\<close>

theorem NoteOn_trigger_values:
  "envelope (NoteOn note velocity s) = 0
   \<and> pitch_envelope (NoteOn note velocity s) = 1
   \<and> osc2_envelope (NoteOn note velocity s) = 1
   \<and> click_envelope (NoteOn note velocity s) = 1
   \<and> filter_state0 (NoteOn note velocity s) = 0
   \<and> filter_state1 (NoteOn note velocity s) = 0
   \<and> filter_state2 (NoteOn note velocity s) = 0
   \<and> filter_state3 (NoteOn note velocity s) = 0
   \<and> last_noise (NoteOn note velocity s) = 0
   \<and> envelope_state (NoteOn note velocity s) = k_state_attack
   \<and> current_note (NoteOn note velocity s) = note
   \<and> current_velocity (NoteOn note velocity s) = real (unat velocity) / 127"
  by (simp add: NoteOn_def)

text \<open>
  C4, as stated: a matching \<^verbatim>\<open>NoteOff\<close> received while the machine is Idle leaves it Idle.
  It does not: a newly constructed object is Idle, and \<^verbatim>\<open>NoteOff(0xFF)\<close> puts it in Release.
\<close>

theorem NoteOff_idle_counterexample:
  "envelope_state Synth_new = k_state_off
   \<and> envelope_state (NoteOff 0xFF Synth_new) = k_state_release"
  by (simp add: NoteOff_def Synth_new_fields)

text \<open>
  C4, amended. \<^verbatim>\<open>NoteOff(n)\<close> sets the envelope state to Release exactly when \<open>n\<close> is the
  current note or the wildcard \<open>0xFF\<close>, in whatever state the machine is, Idle included,
  and it changes no other member; \<^verbatim>\<open>NoteOff(m)\<close> with an \<open>m\<close> that is neither is a no-op. An
  Idle machine stays Idle under rendering, parameter writes, preset loads and reset: only a
  note-on or a matching note-off moves it out of Idle.
\<close>

theorem NoteOff_transition:
  "((n = current_note s \<or> n = 0xFF) \<longrightarrow>
       NoteOff n s = s\<lparr>envelope_state := k_state_release\<rparr>)
   \<and> (m \<noteq> current_note s \<and> m \<noteq> 0xFF \<longrightarrow> NoteOff m s = s)
   \<and> (envelope_state s = k_state_off \<longrightarrow>
         envelope_state (rendered rnd k s) = k_state_off
         \<and> envelope_state (setParameter i v s) = k_state_off
         \<and> envelope_state (LoadPreset p s) = k_state_off
         \<and> envelope_state (reset s) = k_state_off
         \<and> envelope_state (NoteOff m s)
             = (if m = current_note s \<or> m = 0xFF then k_state_release else k_state_off)
         \<and> envelope_state (NoteOn m vel s) = k_state_attack)"
  using off_forever[of s rnd k]
  by (simp add: NoteOff_def NoteOn_def control_keeps_state)

theorem NoteOff_transition_witness:
  "(0xFF = current_note Synth_new \<or> (0xFF :: 8 word) = 0xFF)
   \<and> 5 \<noteq> current_note Synth_new \<and> (5 :: 8 word) \<noteq> 0xFF
   \<and> envelope_state Synth_new = k_state_off
   \<and> NoteOff 0xFF Synth_new = Synth_new\<lparr>envelope_state := k_state_release\<rparr>
   \<and> NoteOff 5 Synth_new = Synth_new
   \<and> envelope_state (rendered (\<lambda>k. 0) 3 Synth_new) = k_state_off
   \<and> envelope_state (NoteOff 5 Synth_new) = k_state_off"
  using NoteOff_transition[of "0xFF" Synth_new 5 "\<lambda>k. 0" 3 0 0 0 0]
  by (simp add: Synth_new_fields)

text \<open>
  C5. \<^verbatim>\<open>reset\<close> is claimed to leave every parameter as it was, the filter's on/off and
  12/24 dB switches in particular. After the preset Sub Bass both switches are on; after
  \<^verbatim>\<open>reset\<close> both are off.
\<close>

theorem reset_clears_filter_switches:
  "filter_enabled (LoadPreset k_preset_sub Synth_new)
   \<and> filter_mode_24db (LoadPreset k_preset_sub Synth_new)
   \<and> \<not> filter_enabled (reset (LoadPreset k_preset_sub Synth_new))
   \<and> \<not> filter_mode_24db (reset (LoadPreset k_preset_sub Synth_new))"
  by (simp add: LoadPreset_def preset_defs reset_def)

text \<open>
  C6. Each phase is claimed to stay in \<open>[0, 1)\<close>, also when frequency modulation makes the
  body frequency negative. In the scenario above (every parameter within its range in
  \<^verbatim>\<open>header.c\<close>) the body frequency is \<open>- 100\<close> Hz on each frame after the note, the body phase
  falls by \<open>1 / 480\<close> per frame, and after 38 frames it is \<open>- 1 / 240\<close>: the wrap of
  \<^verbatim>\<open>process\<close> tests \<^verbatim>\<open>phase1_ >= 1.f\<close> only.
\<close>

theorem phase1_negative_after_fm:
  "phase1 (snd (Render (\<lambda>k. 0) 38 (NoteOff 60 (NoteOn 60 100
     (setParameter k_param_fm_amount 100 (setParameter k_param_pitch_curve 100
       (snd (Render (\<lambda>k. 0) 24 (setParameter k_param_fm_ratio 50
         (setParameter k_param_pitch 150 Synth_new)))))))))) = - 1 / 240"
proof -
  let ?r = "\<lambda>k::nat. 0::int"
  have "phase1 (snd (Render ?r 38 (fm_trigger ?r)))
      = phase1 (snd (Render ?r 37 (snd (process ?r (fm_trigger ?r)))))"
    by (simp add: eval_nat_numeral Render_snd_Suc del: Render.simps(2))
  also have "\<dots> = 7 / 96 - real (37::nat) / 480"
    using fm_idle_run[of "snd (process ?r (fm_trigger ?r))" ?r 37] fm_trigger_first[of ?r]
    by simp
  finally show ?thesis
    by (simp add: fm_trigger_def fm_warmup_def fm_setup_def)
qed

text \<open>
  C7. \<^verbatim>\<open>LoadPreset\<close> with an unknown index is claimed to change nothing, and
  \<^verbatim>\<open>getPresetIndex\<close> to go on returning the last preset that was loaded. After preset 2 is
  loaded, \<^verbatim>\<open>LoadPreset(7)\<close> keeps the parameters of preset 2 and \<^verbatim>\<open>getPresetIndex\<close> returns 7.
\<close>

theorem LoadPreset_unknown_index_stored:
  "getPresetIndex (LoadPreset 2 Synth_new) = 2
   \<and> getPresetIndex (LoadPreset 7 (LoadPreset 2 Synth_new)) = 7
   \<and> LoadPreset 7 (LoadPreset 2 Synth_new) = (LoadPreset 2 Synth_new)\<lparr>preset_index := 7\<rparr>"
  by (simp add: getPresetIndex_def LoadPreset_def preset_defs)

text \<open>
  C8. For the waveform parameter, every value outside 0 to 4 is claimed to give the
  placeholder. The value 256 gives the name of waveform 0: the argument is cut to eight
  bits before it is compared with the number of waveforms.
\<close>

theorem getParameterStrValue_256:
  "getParameterStrValue k_param_osc2_waveform 256 = ''Sine''"
  by (simp add: getParameterStrValue_def k_num_waves_def s_waveform_names_def)

text \<open>
  C9. \<^verbatim>\<open>Init\<close> returns the sample-rate code exactly when the descriptor's sample rate is not
  48000; otherwise the geometry code exactly when the number of output channels is not 2;
  otherwise the success code. On failure the object is left as it was; on success the
  voice state is zero and idle and every parameter has its default value. \<^verbatim>\<open>Init\<close> is the
  only operation of the embedding whose result carries a code.
\<close>

theorem Init_result:
  "(fst (Init desc s) = k_unit_err_samplerate \<longleftrightarrow> samplerate desc \<noteq> 48000)
   \<and> (fst (Init desc s) = k_unit_err_geometry
        \<longleftrightarrow> samplerate desc = 48000 \<and> output_channels desc \<noteq> 2)
   \<and> (fst (Init desc s) = k_unit_err_none
        \<longleftrightarrow> samplerate desc = 48000 \<and> output_channels desc = 2)
   \<and> snd (Init desc s)
       = (if samplerate desc = 48000 \<and> output_channels desc = 2 then initParams (reset s)
          else s)
   \<and> initParams (reset s) = \<lparr>
       phase1 = 0, phase2 = 0, click_phase = 0, envelope = 0, pitch_envelope = 0,
       osc2_envelope = 0, click_envelope = 0, envelope_state = k_state_off,
       current_note = 0, current_velocity = 0, preset_index = 0,
       pitch = 55, decay = 130, pitch_curve = 0.5, body_level = 0.9, drive = 0.4,
       attack = 2, release = 300, click_level = 0.5, click_freq = 200, click_decay = 20,
       click_tone = 0.6, last_noise = 0, filter_enabled = False, filter_cutoff = 0.7,
       filter_resonance = 0.2, filter_mode_24db = False, filter_state0 = 0,
       filter_state1 = 0, filter_state2 = 0, filter_state3 = 0, osc2_enabled = 1,
       osc2_waveform = k_wave_sine, osc2_pitch = 2, osc2_level = 0.5, fm_amount = 0,
       fm_ratio = 2, osc2_decay = 100, pulse_width = 0.5, rand_calls = rand_calls s\<rparr>"
  using init_state[of s] by (simp add: Init_def)

text \<open>
  C10. \<^verbatim>\<open>NoteOn\<close> leaves the body, secondary-oscillator and click phases as they were, for
  every note, velocity and prior state. \<^verbatim>\<open>reset\<close>, and with it the constructor and a
  successful \<^verbatim>\<open>Init\<close>, sets the three phases to 0; \<^verbatim>\<open>NoteOff\<close>, \<^verbatim>\<open>setParameter\<close> and
  \<^verbatim>\<open>LoadPreset\<close> do not write them.
\<close>

theorem NoteOn_keeps_phases:
  "phase1 (NoteOn n v s) = phase1 s
   \<and> phase2 (NoteOn n v s) = phase2 s
   \<and> click_phase (NoteOn n v s) = click_phase s
   \<and> phase1 (reset s) = 0 \<and> phase2 (reset s) = 0 \<and> click_phase (reset s) = 0
   \<and> phase1 Synth_new = 0 \<and> phase2 Synth_new = 0 \<and> click_phase Synth_new = 0
   \<and> phase1 (initParams (reset s)) = 0 \<and> phase2 (initParams (reset s)) = 0
   \<and> click_phase (initParams (reset s)) = 0
   \<and> phase1 (NoteOff n s) = phase1 s \<and> phase2 (NoteOff n s) = phase2 s
   \<and> click_phase (NoteOff n s) = click_phase s
   \<and> phase1 (setParameter i x s) = phase1 s \<and> phase2 (setParameter i x s) = phase2 s
   \<and> click_phase (setParameter i x s) = click_phase s
   \<and> phase1 (LoadPreset p s) = phase1 s \<and> phase2 (LoadPreset p s) = phase2 s
   \<and> click_phase (LoadPreset p s) = click_phase s"
  by (simp add: NoteOn_def NoteOff_def setParameter_def LoadPreset_def Let_def
      zeroed_phases)

end
